theory Spec2Isabelle
  imports Complex_Main
begin

section \<open>Python values\<close>

text \<open>
  A Python \<open>str\<close> is a sequence of Unicode code points and \<open>len\<close> counts code points,
  so a string is modelled as the list of its code points. Literals of the source are
  written \<open>str ''...''\<close>.
\<close>

type_synonym pystr = "nat list"

definition str :: "string \<Rightarrow> pystr" where
  "str s = map of_char s"

text \<open>
  The slice \<open>xs[:k]\<close>: a negative bound counts from the end, and a bound outside the
  sequence is clipped, never an error.
\<close>

definition slice_to :: "'a list \<Rightarrow> int \<Rightarrow> 'a list" where
  "slice_to xs k =
     (if k < 0 then take (nat (int (length xs) + k)) xs else take (nat k) xs)"

text \<open>
  \<open>str.isspace\<close> for one code point (the code points Python treats as whitespace), and
  \<open>str.strip()\<close> without argument, which removes them at both ends.
\<close>

definition isspace :: "nat \<Rightarrow> bool" where
  "isspace c \<longleftrightarrow>
     (9 \<le> c \<and> c \<le> 13) \<or> (28 \<le> c \<and> c \<le> 32) \<or> c = 133 \<or> c = 160 \<or> c = 5760 \<or>
     (8192 \<le> c \<and> c \<le> 8202) \<or> c = 8232 \<or> c = 8233 \<or> c = 8239 \<or> c = 8287 \<or>
     c = 12288"

definition strip :: "pystr \<Rightarrow> pystr" where
  "strip s = rev (dropWhile isspace (rev (dropWhile isspace s)))"

text \<open>
  \<open>str.lower()\<close> on the ASCII letters. The source only ever compares the result with
  \<open>"azure"\<close>; no code point outside \<open>A-Z\<close> lowers to one of these five letters, so the
  comparison is decided by the ASCII part.
\<close>

definition lower_char :: "nat \<Rightarrow> nat" where
  "lower_char c = (if 65 \<le> c \<and> c \<le> 90 then c + 32 else c)"

definition lower :: "pystr \<Rightarrow> pystr" where
  "lower s = map lower_char s"

text \<open>Truthiness of an optional string: \<open>None\<close> and \<open>""\<close> are false.\<close>

definition truthy :: "pystr option \<Rightarrow> bool" where
  "truthy v = (case v of None \<Rightarrow> False | Some s \<Rightarrow> s \<noteq> [])"

text \<open>\<open>str(v)\<close> of an optional string: \<open>str(None)\<close> is \<open>"None"\<close>.\<close>

definition py_str :: "pystr option \<Rightarrow> pystr" where
  "py_str v = (case v of None \<Rightarrow> str ''None'' | Some s \<Rightarrow> s)"

text \<open>Exceptions: the class and the message that \<open>str(e)\<close> gives.\<close>

datatype exn_class =
  APIResponseError | RuntimeError | IndexError | KeyError | OtherException pystr

datatype exn = Exn (exn_kind: exn_class) (exn_msg: pystr)


section \<open>utils/prompts.py\<close>

text \<open>
  A format string is a sequence of literal pieces and named replacement fields.
  \<open>str.format(**kw)\<close> raises \<open>KeyError\<close> at the first field that \<open>kw\<close> lacks.
\<close>

datatype segment = Lit pystr | Field pystr

fun format :: "segment list \<Rightarrow> (pystr \<rightharpoonup> pystr) \<Rightarrow> exn + pystr" where
  "format [] kw = Inr []"
| "format (Lit s # segs) kw =
     (case format segs kw of Inl e \<Rightarrow> Inl e | Inr r \<Rightarrow> Inr (s @ r))"
| "format (Field n # segs) kw =
     (case kw n of
        None \<Rightarrow> Inl (Exn KeyError (str [CHR 0x27] @ n @ str [CHR 0x27]))
      | Some v \<Rightarrow> (case format segs kw of Inl e \<Rightarrow> Inl e | Inr r \<Rightarrow> Inr (v @ r)))"

definition nl :: pystr where
  "nl = [10]"

definition IDEA_GENERATOR_PROMPT_TEMPLATE :: "segment list" where
  "IDEA_GENERATOR_PROMPT_TEMPLATE =
   [Lit (nl
      @ str ''You are a creative and imaginative story idea generator. Your task is to generate original, compelling, and concise story ideas based on the user's input.'' @ nl
      @ nl
      @ str ''User Input: ''),
    Field (str ''user_input''),
    Lit (nl
      @ nl
      @ str ''Please generate 3-5 unique story ideas that are:'' @ nl
      @ str ''1. Original and imaginative - avoid clich'' @ [233] @ str ''s and predictable plots'' @ nl
      @ str ''2. Concise - each idea should be 2-3 sentences maximum'' @ nl
      @ str ''3. Diverse in genre and tone - explore different possibilities'' @ nl
      @ str ''4. Specific enough to inspire a writer but open-ended enough to allow creative development'' @ nl
      @ nl
      @ str ''Format each idea as a numbered list with a brief title and description.'' @ nl
      @ str ''Example:'' @ nl
      @ str ''1. '' @ [34] @ str ''The Memory Collector'' @ [34] @ str '' - A woman discovers she can extract and store other people's memories in glass jars. When a mysterious client requests a specific childhood memory, she uncovers a conspiracy.'' @ nl
      @ nl
      @ str ''Be bold, creative, and surprising in your ideas!'' @ nl)]"

section \<open>The agent's data\<close>

text \<open>
  The attributes of an \<open>IdeaGeneratorAgent\<close>. The client is kept as the constructor
  call that built it.
\<close>

datatype client =
  AzureOpenAI "pystr option" "pystr option" "pystr option"
| OpenAI "pystr option"

record idea_generator_agent =
  api_type :: pystr
  api_key :: "pystr option"
  model :: pystr
  api_base :: "pystr option"
  api_version :: "pystr option"
  deployment_name :: "pystr option"
  client :: client

section \<open>The remote services and the world\<close>

text \<open>
  The request of \<open>client.chat.completions.create\<close>: its four keyword arguments. Each
  message is a dictionary, kept as the list of its items. The response is reduced to
  what the source reads: \<open>response.choices[i].message.content\<close>.
\<close>

record completion_request =
  model :: pystr
  messages :: "(pystr \<times> pystr) list list"
  max_tokens :: int
  temperature :: real

datatype message = Message (content: "pystr option")

datatype choice = Choice (message: message)

datatype completion = Completion (choices: "choice list")

text \<open>
  The completion service: what one call of \<open>create\<close> with a given request does, raise
  or return.
\<close>

type_synonym completions = "completion_request \<Rightarrow> exn + completion"

text \<open>
  What the Notion client is sent. A property value is \<open>{"title": [..]}\<close>,
  \<open>{"select": {"name": n}}\<close> or \<open>{"rich_text": [..]}\<close>; a block is a \<open>heading_1\<close> or a
  \<open>paragraph\<close>; each text object in their lists is kept as its \<open>content\<close> string.
\<close>

datatype property = Title "pystr list" | Select pystr | Rich_text "pystr list"

datatype block = Heading_1 "pystr list" | Paragraph "pystr list"

datatype notion_call =
  Pages_create pystr "pystr \<rightharpoonup> property" "block list"
| Pages_update pystr "pystr \<rightharpoonup> property"

text \<open>
  A value of a response dictionary, and the three shapes of a response that the
  source tells apart: an object with a \<open>__dict__\<close>, a \<open>dict\<close>, and anything else (kept as
  its \<open>str()\<close>).
\<close>

datatype pyvalue =
  PyNone | PyBool bool | PyInt int | PyStr pystr
| PyList "pyvalue list" | PyDict "(pystr \<times> pyvalue) list"

type_synonym pydata = "(pystr \<times> pyvalue) list"

datatype raw_response = Has_dict pydata | Is_dict pydata | Neither pystr

type_synonym notion = "notion_call \<Rightarrow> exn + raw_response"

text \<open>
  The effects of the program: the lines printed, and the calls issued to the two
  remote services, each in order.
\<close>

record world =
  stdout :: "pystr list"
  completion_calls :: "completion_request list"
  notion_calls :: "notion_call list"

definition print :: "pystr \<Rightarrow> world \<Rightarrow> world" where
  "print line w = w\<lparr>stdout := stdout w @ [line]\<rparr>"

section \<open>agents/idea_generator_agent.py\<close>

text \<open>\<open>os.getenv(key, default)\<close> over the environment, a dictionary of strings.\<close>

definition getenv :: "(pystr \<rightharpoonup> pystr) \<Rightarrow> pystr \<Rightarrow> pystr \<Rightarrow> pystr" where
  "getenv env key dflt = (case env key of None \<Rightarrow> dflt | Some v \<Rightarrow> v)"

text \<open>
  \<open>IdeaGeneratorAgent.__init__\<close>. The arguments of \<open>AzureOpenAI\<close> are \<open>api_key\<close>,
  \<open>api_version\<close> and \<open>azure_endpoint\<close>, in this order.
\<close>

definition init_agent :: "(pystr \<rightharpoonup> pystr) \<Rightarrow> exn + idea_generator_agent" where
  "init_agent env =
     (let api_type = getenv env (str ''OPENAI_API_TYPE'') (str ''openai'');
          api_key = env (str ''OPENAI_API_KEY'');
          model = getenv env (str ''OPENAI_MODEL'') (str ''gpt-4o'');
          api_base = env (str ''OPENAI_API_BASE'');
          api_version = env (str ''OPENAI_API_VERSION'');
          deployment_name = env (str ''OPENAI_DEPLOYMENT_NAME'')
      in if lower api_type = str ''azure'' then
           if \<not> (truthy api_base \<and> truthy api_version \<and> truthy deployment_name) then
             Inl (Exn RuntimeError (str ''Missing Azure OpenAI configuration in .env''))
           else
             Inr \<lparr>api_type = api_type, api_key = api_key, model = model,
                  api_base = api_base, api_version = api_version,
                  deployment_name = deployment_name,
                  client = AzureOpenAI api_key api_version api_base\<rparr>
         else
           Inr \<lparr>api_type = api_type, api_key = api_key, model = model,
                api_base = api_base, api_version = api_version,
                deployment_name = deployment_name,
                client = OpenAI api_key\<rparr>)"

text \<open>
  \<open>generate_idea_sync\<close>. The template is formatted before the \<open>try\<close>; the call, the read
  of \<open>choices[0]\<close> (an \<open>IndexError\<close> on an empty list) and the return are inside it, and
  the handler catches every \<open>Exception\<close>.
\<close>

definition generate_idea_sync ::
  "idea_generator_agent \<Rightarrow> completions \<Rightarrow> pystr \<Rightarrow> world \<Rightarrow> (exn + (pystr \<rightharpoonup> pystr)) \<times> world" where
  "generate_idea_sync self create prompt w =
     (case format IDEA_GENERATOR_PROMPT_TEMPLATE [str ''user_input'' \<mapsto> prompt] of
        Inl e \<Rightarrow> (Inl e, w)
      | Inr formatted_prompt \<Rightarrow>
          (let request =
                 (if lower (api_type self) = str ''azure'' then
                    \<lparr>model = py_str (deployment_name self),
                     messages = [[(str ''role'', str ''user''), (str ''content'', formatted_prompt)]],
                     max_tokens = 800, temperature = 9 / 10\<rparr>
                  else
                    \<lparr>model = idea_generator_agent.model self,
                     messages = [[(str ''role'', str ''user''), (str ''content'', formatted_prompt)]],
                     max_tokens = 800, temperature = 9 / 10\<rparr>);
               w1 = w\<lparr>completion_calls := completion_calls w @ [request]\<rparr>;
               attempt =
                 (case create request of
                    Inl e \<Rightarrow> Inl e
                  | Inr response \<Rightarrow>
                      (case choices response of
                         [] \<Rightarrow> Inl (Exn IndexError (str ''list index out of range''))
                       | c # _ \<Rightarrow>
                           (let content = content (message c);
                                ideas = (case content of
                                           None \<Rightarrow> []
                                         | Some s \<Rightarrow> if s \<noteq> [] then strip s else [])
                            in Inr [str ''ideas'' \<mapsto> ideas])))
           in case attempt of
                Inr result \<Rightarrow> (Inr result, w1)
              | Inl e \<Rightarrow>
                  (Inr [str ''ideas'' \<mapsto> str ''Error generating ideas: '' @ exn_msg e],
                   print (str ''Error generating ideas: '' @ exn_msg e) w1)))"

text \<open>
  \<open>generate_idea\<close>, the coroutine, as what awaiting it does. Its body has no \<open>await\<close>, so
  it runs to its return without suspending.
\<close>

definition generate_idea ::
  "idea_generator_agent \<Rightarrow> completions \<Rightarrow> pystr \<Rightarrow> world \<Rightarrow> (exn + (pystr \<rightharpoonup> pystr)) \<times> world" where
  "generate_idea self create prompt w =
     (case format IDEA_GENERATOR_PROMPT_TEMPLATE [str ''user_input'' \<mapsto> prompt] of
        Inl e \<Rightarrow> (Inl e, w)
      | Inr formatted_prompt \<Rightarrow>
          (let request =
                 (if lower (api_type self) = str ''azure'' then
                    \<lparr>model = py_str (deployment_name self),
                     messages = [[(str ''role'', str ''user''), (str ''content'', formatted_prompt)]],
                     max_tokens = 800, temperature = 9 / 10\<rparr>
                  else
                    \<lparr>model = idea_generator_agent.model self,
                     messages = [[(str ''role'', str ''user''), (str ''content'', formatted_prompt)]],
                     max_tokens = 800, temperature = 9 / 10\<rparr>);
               w1 = w\<lparr>completion_calls := completion_calls w @ [request]\<rparr>;
               attempt =
                 (case create request of
                    Inl e \<Rightarrow> Inl e
                  | Inr response \<Rightarrow>
                      (case choices response of
                         [] \<Rightarrow> Inl (Exn IndexError (str ''list index out of range''))
                       | c # _ \<Rightarrow>
                           (let content = content (message c);
                                ideas = (case content of
                                           None \<Rightarrow> []
                                         | Some s \<Rightarrow> if s \<noteq> [] then strip s else [])
                            in Inr [str ''ideas'' \<mapsto> ideas])))
           in case attempt of
                Inr result \<Rightarrow> (Inr result, w1)
              | Inl e \<Rightarrow>
                  (Inr [str ''ideas'' \<mapsto> str ''Error generating ideas: '' @ exn_msg e],
                   print (str ''Error generating ideas: '' @ exn_msg e) w1)))"

text \<open>
  \<open>ideaAgentNode\<close>: the prompt of the state (the empty string when absent), a fresh
  agent from the environment, whose constructor may raise, and the synchronous call.
\<close>

definition ideaAgentNode ::
  "(pystr \<rightharpoonup> pystr) \<Rightarrow> completions \<Rightarrow> (pystr \<rightharpoonup> pystr) \<Rightarrow> world
   \<Rightarrow> (exn + (pystr \<rightharpoonup> pystr)) \<times> world" where
  "ideaAgentNode env create state w =
     (let user_prompt = (case state (str ''prompt'') of None \<Rightarrow> [] | Some p \<Rightarrow> p)
      in case init_agent env of
           Inl e \<Rightarrow> (Inl e, w)
         | Inr idea_agent \<Rightarrow> generate_idea_sync idea_agent create user_prompt w)"

section \<open>utils/notion_client.py\<close>


text \<open>
  \<open>NotionStoryManager._truncate_text(text, max_length=1900)\<close>. The method does not read
  \<open>self\<close>.
\<close>

definition default_max_length :: int where
  "default_max_length = 1900"

definition truncate_text :: "pystr \<Rightarrow> int \<Rightarrow> pystr" where
  "truncate_text text max_length =
     (if int (length text) \<le> max_length then text
      else slice_to text (max_length - 3) @ str ''...'')"

text \<open>
  The attributes of a \<open>NotionStoryManager\<close> that its methods read. The dictionary
  \<open>story_data\<close> holds the string fields of the story state.
\<close>

record notion_story_manager =
  notion_token :: pystr
  database_id :: pystr

text \<open>\<open>create_story_page\<close>, lines 60 to 118: the dictionary \<open>properties\<close>.\<close>

definition create_properties :: "(pystr \<rightharpoonup> pystr) \<Rightarrow> (pystr \<rightharpoonup> property)" where
  "create_properties story_data =
     (let properties =
            [str ''Title'' \<mapsto>
               Title [slice_to (case story_data (str ''prompt'') of
                                  None \<Rightarrow> str ''Untitled Story''
                                | Some p \<Rightarrow> p) 100],
             str ''Status'' \<mapsto> Select (str ''Generated'')];
          properties =
            (case story_data (str ''setting'') of
               None \<Rightarrow> properties
             | Some v \<Rightarrow>
                 properties(str ''Setting'' \<mapsto> Rich_text [truncate_text v default_max_length]));
          properties =
            (case story_data (str ''characters'') of
               None \<Rightarrow> properties
             | Some v \<Rightarrow>
                 properties(str ''Characters'' \<mapsto> Rich_text [truncate_text v default_max_length]));
          properties =
            (case story_data (str ''conflict'') of
               None \<Rightarrow> properties
             | Some v \<Rightarrow>
                 properties(str ''Conflict'' \<mapsto> Rich_text [truncate_text v default_max_length]));
          properties =
            (case story_data (str ''resolution'') of
               None \<Rightarrow> properties
             | Some v \<Rightarrow>
                 properties(str ''Resolution'' \<mapsto> Rich_text [truncate_text v default_max_length]))
      in properties)"

text \<open>\<open>create_story_page\<close>, lines 124 to 186: the list \<open>children\<close>.\<close>

definition create_children :: "(pystr \<rightharpoonup> pystr) \<Rightarrow> block list" where
  "create_children story_data =
     (let children = [Heading_1 [str ''Generated Ideas'']];
          children =
            (case story_data (str ''ideas'') of
               None \<Rightarrow> children
             | Some i \<Rightarrow>
                 if i \<noteq> [] then children @ [Paragraph [truncate_text i default_max_length]]
                 else children);
          children =
            children @
            [Heading_1 [str ''Complete Story''],
             Paragraph [truncate_text (case story_data (str ''story'') of
                                         None \<Rightarrow> []
                                       | Some s \<Rightarrow> s) default_max_length]]
      in children)"

text \<open>
  \<open>create_story_page\<close>: the call of \<open>pages.create\<close>, the conversion of its response, and
  the two handlers, which print and raise the exception again.
\<close>

definition create_story_page ::
  "notion_story_manager \<Rightarrow> notion \<Rightarrow> (pystr \<rightharpoonup> pystr) \<Rightarrow> world \<Rightarrow> (exn + pydata) \<times> world" where
  "create_story_page self pages story_data w =
     (let properties = create_properties story_data;
          children = create_children story_data;
          call = Pages_create (database_id self) properties children;
          w1 = w\<lparr>notion_calls := notion_calls w @ [call]\<rparr>
      in case pages call of
           Inr response \<Rightarrow>
             (Inr (case response of
                     Has_dict d \<Rightarrow> d
                   | Is_dict d \<Rightarrow> d
                   | Neither s \<Rightarrow> [(str ''id'', PyStr s)]),
              w1)
         | Inl e \<Rightarrow>
             if exn_kind e = APIResponseError then
               (Inl e, print (str ''Notion API error: '' @ exn_msg e) w1)
             else
               (Inl e, print (str ''Error creating story page: '' @ exn_msg e) w1))"

text \<open>\<open>update_story_page\<close>: only the keys present in \<open>story_data\<close> are sent.\<close>

definition update_story_page ::
  "notion_story_manager \<Rightarrow> notion \<Rightarrow> pystr \<Rightarrow> (pystr \<rightharpoonup> pystr) \<Rightarrow> world
   \<Rightarrow> (exn + pydata) \<times> world" where
  "update_story_page self pages page_id story_data w =
     (let properties = Map.empty;
          properties =
            (case story_data (str ''prompt'') of
               None \<Rightarrow> properties
             | Some v \<Rightarrow> properties(str ''Title'' \<mapsto> Title [slice_to v 100]));
          properties =
            (case story_data (str ''setting'') of
               None \<Rightarrow> properties
             | Some v \<Rightarrow> properties(str ''Setting'' \<mapsto> Rich_text [v]));
          properties =
            (case story_data (str ''characters'') of
               None \<Rightarrow> properties
             | Some v \<Rightarrow> properties(str ''Characters'' \<mapsto> Rich_text [v]));
          properties =
            (case story_data (str ''conflict'') of
               None \<Rightarrow> properties
             | Some v \<Rightarrow> properties(str ''Conflict'' \<mapsto> Rich_text [v]));
          properties =
            (case story_data (str ''resolution'') of
               None \<Rightarrow> properties
             | Some v \<Rightarrow> properties(str ''Resolution'' \<mapsto> Rich_text [v]));
          call = Pages_update page_id properties;
          w1 = w\<lparr>notion_calls := notion_calls w @ [call]\<rparr>
      in case pages call of
           Inr response \<Rightarrow>
             (Inr (case response of
                     Has_dict d \<Rightarrow> d
                   | Is_dict d \<Rightarrow> d
                   | Neither s \<Rightarrow> [(str ''id'', PyStr s)]),
              w1)
         | Inl e \<Rightarrow>
             if exn_kind e = APIResponseError then
               (Inl e, print (str ''Notion API error: '' @ exn_msg e) w1)
             else
               (Inl e, print (str ''Error updating story page: '' @ exn_msg e) w1))"

text \<open>The text contents that a call carries to the store.\<close>

fun property_texts :: "property \<Rightarrow> pystr list" where
  "property_texts (Title ts) = ts"
| "property_texts (Select n) = [n]"
| "property_texts (Rich_text ts) = ts"

fun block_texts :: "block \<Rightarrow> pystr list" where
  "block_texts (Heading_1 ts) = ts"
| "block_texts (Paragraph ts) = ts"

fun submitted_texts :: "notion_call \<Rightarrow> pystr set" where
  "submitted_texts (Pages_create db properties children) =
     (\<Union>p \<in> ran properties. set (property_texts p)) \<union> (\<Union>b \<in> set children. set (block_texts b))"
| "submitted_texts (Pages_update page_id properties) =
     (\<Union>p \<in> ran properties. set (property_texts p))"

section \<open>Concrete inputs\<close>

definition world0 :: world where
  "world0 = \<lparr>stdout = [], completion_calls = [], notion_calls = []\<rparr>"

definition openai_agent :: idea_generator_agent where
  "openai_agent =
     \<lparr>api_type = str ''openai'', api_key = Some (str ''sk-test''), model = str ''gpt-4o'',
      api_base = None, api_version = None, deployment_name = None,
      client = OpenAI (Some (str ''sk-test''))\<rparr>"

definition completions_down :: completions where
  "completions_down request = Inl (Exn (OtherException (str ''APIConnectionError'')) (str ''Connection error.''))"

definition completions_reply :: "pystr option \<Rightarrow> completions" where
  "completions_reply text request = Inr (Completion [Choice (Message text)])"

definition azure_env_without_deployment :: "pystr \<rightharpoonup> pystr" where
  "azure_env_without_deployment =
     [str ''OPENAI_API_TYPE'' \<mapsto> str ''azure'',
      str ''OPENAI_API_KEY'' \<mapsto> str ''key'',
      str ''OPENAI_API_BASE'' \<mapsto> str ''https://example.openai.azure.com'',
      str ''OPENAI_API_VERSION'' \<mapsto> str ''2024-02-01'']"

definition manager0 :: notion_story_manager where
  "manager0 = \<lparr>notion_token = str ''secret'', database_id = str ''db''\<rparr>"

definition pages_down :: notion where
  "pages_down call = Inl (Exn APIResponseError (str ''API token is invalid.''))"

definition pages_ok :: notion where
  "pages_ok call = Inr (Is_dict [(str ''id'', PyStr (str ''page-1''))])"

section \<open>Basic facts\<close>

lemma str_eq_iff [simp]: "str a = str b \<longleftrightarrow> a = b"
  by (simp add: str_def inj_map_eq_map inj_on_def)

lemma length_str [simp]: "length (str s) = length s"
  by (simp add: str_def)

lemma truncate_text_short:
  "length text \<le> 1900 \<Longrightarrow> truncate_text text default_max_length = text"
  by (simp add: truncate_text_def default_max_length_def)

lemma truncate_text_long:
  "1900 < length text \<Longrightarrow>
   truncate_text text default_max_length = take 1897 text @ str ''...''"
  by (simp add: truncate_text_def default_max_length_def slice_to_def)

lemma length_truncate_text_le:
  "length (truncate_text text default_max_length) \<le> 1900"
proof (cases "length text \<le> 1900")
  case True
  then show ?thesis by (simp add: truncate_text_short)
next
  case False
  then have "1900 < length text" by simp
  then show ?thesis by (simp add: truncate_text_long)
qed

lemma strip_Nil [simp]: "strip [] = []"
  by (simp add: strip_def)

lemma slice_to_100: "slice_to xs 100 = take 100 xs"
  by (simp add: slice_to_def)

text \<open>The template has the one field \<open>user_input\<close>, so formatting it never raises.\<close>

lemma format_idea_prompt:
  "\<exists>p. format IDEA_GENERATOR_PROMPT_TEMPLATE [str ''user_input'' \<mapsto> prompt] = Inr p"
  by (simp add: IDEA_GENERATOR_PROMPT_TEMPLATE_def)

lemma generate_idea_sync_calls:
  "\<exists>request. completion_calls (snd (generate_idea_sync self create prompt w))
                = completion_calls w @ [request]"
  using format_idea_prompt [of prompt]
  by (auto simp: generate_idea_sync_def Let_def print_def split: sum.splits list.splits)

lemma create_properties_Title:
  "create_properties story_data (str ''Title'')
     = Some (Title [case story_data (str ''prompt'') of
                      None \<Rightarrow> str ''Untitled Story'' | Some p \<Rightarrow> take 100 p])"
  by (simp add: create_properties_def Let_def slice_to_100 split: option.splits)

lemma create_properties_Status:
  "create_properties story_data (str ''Status'') = Some (Select (str ''Generated''))"
  by (simp add: create_properties_def Let_def split: option.splits)

lemma create_story_page_calls:
  "notion_calls (snd (create_story_page self pages story_data w))
     = notion_calls w @ [Pages_create (database_id self) (create_properties story_data)
                           (create_children story_data)]"
  by (simp add: create_story_page_def Let_def print_def split: sum.splits)

section \<open>Truncation\<close>

text \<open>
  Claim C2. For every string longer than 1900 characters, \<open>_truncate_text\<close> at its default
  limit returns the first 1897 characters of the input followed by \<open>"..."\<close>: a string of
  exactly 1900 characters whose last three characters are \<open>"..."\<close>.
\<close>

theorem truncate_text_over_limit:
  assumes "1900 < length text"
  shows "truncate_text text default_max_length = take 1897 text @ str ''...''
       \<and> length (truncate_text text default_max_length) = 1900
       \<and> drop 1897 (truncate_text text default_max_length) = str ''...''"
  using assms by (simp add: truncate_text_long)

theorem truncate_text_over_limit_witness:
  "1900 < length (replicate 2000 (97::nat))
   \<and> truncate_text (replicate 2000 97) default_max_length = replicate 1897 97 @ str ''...''
   \<and> length (truncate_text (replicate 2000 97) default_max_length) = 1900
   \<and> drop 1897 (truncate_text (replicate 2000 97) default_max_length) = str ''...''"
  using truncate_text_over_limit [of "replicate 2000 (97::nat)"] by simp

text \<open>
  Claim C8. Truncation at the default limit is idempotent: truncating an already
  truncated string again gives the same string, with no second ellipsis.
\<close>

theorem truncate_text_idempotent:
  "truncate_text (truncate_text t default_max_length) default_max_length
   = truncate_text t default_max_length"
  by (rule truncate_text_short) (rule length_truncate_text_le)

section \<open>The Idea Stage\<close>

text \<open>
  Claim C1. When the completion call that the Idea Stage issues raises an error \<open>e\<close>,
  neither \<open>generate_idea_sync\<close> nor \<open>generate_idea\<close> raises: each returns the dictionary
  whose \<open>ideas\<close> entry is \<open>"Error generating ideas: "\<close> followed by the message of \<open>e\<close>.
  The first hypothesis names the request that the call issued, the second says that the
  service raised \<open>e\<close> on it.
\<close>

theorem generate_idea_error_is_data:
  assumes issued: "completion_calls (snd (generate_idea_sync self create prompt w))
                     = completion_calls w @ [request]"
      and raised: "create request = Inl e"
  shows "fst (generate_idea_sync self create prompt w)
           = Inr [str ''ideas'' \<mapsto> str ''Error generating ideas: '' @ exn_msg e]
       \<and> fst (generate_idea self create prompt w)
           = Inr [str ''ideas'' \<mapsto> str ''Error generating ideas: '' @ exn_msg e]"
  using assms format_idea_prompt [of prompt]
  by (auto simp: generate_idea_def generate_idea_sync_def Let_def print_def
      split: sum.splits list.splits if_splits)

theorem generate_idea_error_is_data_witness:
  "completion_calls (snd (generate_idea_sync openai_agent completions_down (str ''cat'') world0))
     = completion_calls world0
       @ [last (completion_calls
                 (snd (generate_idea_sync openai_agent completions_down (str ''cat'') world0)))]
   \<and> completions_down
       (last (completion_calls
               (snd (generate_idea_sync openai_agent completions_down (str ''cat'') world0))))
     = Inl (Exn (OtherException (str ''APIConnectionError'')) (str ''Connection error.''))
   \<and> fst (generate_idea_sync openai_agent completions_down (str ''cat'') world0)
     = Inr [str ''ideas'' \<mapsto> str ''Error generating ideas: Connection error.'']
   \<and> fst (generate_idea openai_agent completions_down (str ''cat'') world0)
     = Inr [str ''ideas'' \<mapsto> str ''Error generating ideas: Connection error.'']"
proof -
  let ?r = "last (completion_calls
                   (snd (generate_idea_sync openai_agent completions_down (str ''cat'') world0)))"
  have issued: "completion_calls
                  (snd (generate_idea_sync openai_agent completions_down (str ''cat'') world0))
                = completion_calls world0 @ [?r]"
    by (simp add: generate_idea_sync_def IDEA_GENERATOR_PROMPT_TEMPLATE_def completions_down_def
        openai_agent_def world0_def print_def lower_def str_def)
  have raised: "completions_down ?r
                = Inl (Exn (OtherException (str ''APIConnectionError'')) (str ''Connection error.''))"
    by (simp add: completions_down_def)
  from generate_idea_error_is_data [OF issued raised] issued raised show ?thesis
    by (simp add: str_def)
qed

text \<open>
  Claim C6. When the completion call returns, \<open>generate_idea_sync\<close> returns as \<open>ideas\<close>
  the stripped content of the first choice, and the empty string when that content is
  \<open>None\<close>. For content that is \<open>None\<close> or empty the result is \<open>{"ideas": ""}\<close>, which is
  no error result: it differs from every dictionary that the error handler builds.
\<close>

theorem generate_idea_sync_success:
  assumes issued: "completion_calls (snd (generate_idea_sync self create prompt w))
                     = completion_calls w @ [request]"
      and returned: "create request = Inr response"
      and first: "choices response = c # cs"
  shows "fst (generate_idea_sync self create prompt w)
           = Inr [str ''ideas'' \<mapsto> (case content (message c) of None \<Rightarrow> [] | Some s \<Rightarrow> strip s)]
       \<and> (content (message c) = None \<or> content (message c) = Some [] \<longrightarrow>
            fst (generate_idea_sync self create prompt w) = Inr [str ''ideas'' \<mapsto> []]
          \<and> (\<forall>m. fst (generate_idea_sync self create prompt w)
                   \<noteq> Inr [str ''ideas'' \<mapsto> str ''Error generating ideas: '' @ m]))"
proof -
  obtain p where p: "format IDEA_GENERATOR_PROMPT_TEMPLATE [str ''user_input'' \<mapsto> prompt] = Inr p"
    using format_idea_prompt by blast
  have res: "fst (generate_idea_sync self create prompt w)
           = Inr [str ''ideas'' \<mapsto> (case content (message c) of None \<Rightarrow> [] | Some s \<Rightarrow> strip s)]"
  proof (cases "lower (api_type self) = str ''azure''")
    case True
    with issued p have "request = \<lparr>model = py_str (deployment_name self),
        messages = [[(str ''role'', str ''user''), (str ''content'', p)]],
        max_tokens = 800, temperature = 9 / 10\<rparr>"
      by (simp add: generate_idea_sync_def Let_def print_def split: sum.splits list.splits)
    with returned first p True show ?thesis
      by (simp add: generate_idea_sync_def Let_def split: option.splits)
  next
    case False
    with issued p have "request = \<lparr>model = idea_generator_agent.model self,
        messages = [[(str ''role'', str ''user''), (str ''content'', p)]],
        max_tokens = 800, temperature = 9 / 10\<rparr>"
      by (simp add: generate_idea_sync_def Let_def print_def split: sum.splits list.splits)
    with returned first p False show ?thesis
      by (simp add: generate_idea_sync_def Let_def split: option.splits)
  qed
  have ne: "[str ''ideas'' \<mapsto> []] \<noteq> [str ''ideas'' \<mapsto> str ''Error generating ideas: '' @ m]" for m
  proof
    assume "[str ''ideas'' \<mapsto> []] = [str ''ideas'' \<mapsto> str ''Error generating ideas: '' @ m]"
    then have "[str ''ideas'' \<mapsto> ([]::pystr)] (str ''ideas'')
               = [str ''ideas'' \<mapsto> str ''Error generating ideas: '' @ m] (str ''ideas'')"
      by simp
    then show False by (simp add: str_def)
  qed
  show ?thesis using res ne by auto
qed

theorem generate_idea_sync_success_witness:
  "completions_reply (Some (str '' A cat. ''))
     (last (completion_calls (snd (generate_idea_sync openai_agent
        (completions_reply (Some (str '' A cat. ''))) (str ''cat'') world0))))
     = Inr (Completion [Choice (Message (Some (str '' A cat. '')))])
   \<and> fst (generate_idea_sync openai_agent (completions_reply (Some (str '' A cat. '')))
            (str ''cat'') world0)
     = Inr [str ''ideas'' \<mapsto> str ''A cat.'']
   \<and> fst (generate_idea_sync openai_agent (completions_reply (Some [])) (str ''cat'') world0)
     = Inr [str ''ideas'' \<mapsto> []]"
proof -
  let ?a = "completions_reply (Some (str '' A cat. ''))"
  let ?b = "completions_reply (Some [])"
  let ?ra = "last (completion_calls (snd (generate_idea_sync openai_agent ?a (str ''cat'') world0)))"
  let ?rb = "last (completion_calls (snd (generate_idea_sync openai_agent ?b (str ''cat'') world0)))"
  have ia: "completion_calls (snd (generate_idea_sync openai_agent ?a (str ''cat'') world0))
     = completion_calls world0 @ [?ra]"
    by (simp add: generate_idea_sync_def IDEA_GENERATOR_PROMPT_TEMPLATE_def completions_reply_def
        openai_agent_def world0_def print_def lower_def str_def)
  have ib: "completion_calls (snd (generate_idea_sync openai_agent ?b (str ''cat'') world0))
     = completion_calls world0 @ [?rb]"
    by (simp add: generate_idea_sync_def IDEA_GENERATOR_PROMPT_TEMPLATE_def completions_reply_def
        openai_agent_def world0_def print_def lower_def str_def)
  have ra: "?a ?ra = Inr (Completion [Choice (Message (Some (str '' A cat. '')))])"
    by (simp add: completions_reply_def)
  have rb: "?b ?rb = Inr (Completion [Choice (Message (Some []))])"
    by (simp add: completions_reply_def)
  have s: "strip (str '' A cat. '') = str ''A cat.''"
    by (simp add: strip_def isspace_def str_def)
  from generate_idea_sync_success [OF ia ra, of "Choice (Message (Some (str '' A cat. '')))" "[]"]
       generate_idea_sync_success [OF ib rb, of "Choice (Message (Some []))" "[]"] ra s
  show ?thesis by simp
qed

text \<open>
  Claim C7. For every agent, prompt and behaviour of the completion service (a return
  or a raise), \<open>generate_idea\<close> and \<open>generate_idea_sync\<close> give the same result and the
  same effects, and each issues exactly one request, the same one.
\<close>

theorem generate_idea_eq_sync:
  "generate_idea self create prompt w = generate_idea_sync self create prompt w
   \<and> (\<exists>request.
         completion_calls (snd (generate_idea_sync self create prompt w))
           = completion_calls w @ [request]
       \<and> completion_calls (snd (generate_idea self create prompt w))
           = completion_calls w @ [request])"
  using generate_idea_sync_calls [of self create prompt w]
  by (simp add: generate_idea_def generate_idea_sync_def)

text \<open>
  Claim C5. With \<open>OPENAI_API_TYPE\<close> set to \<open>azure\<close> and any of \<open>OPENAI_API_BASE\<close>,
  \<open>OPENAI_API_VERSION\<close>, \<open>OPENAI_DEPLOYMENT_NAME\<close> absent, the constructor raises the
  configuration error. The node that constructs the agent then raises it too and
  leaves the world as it was: no request has been issued.
\<close>

theorem init_agent_azure_incomplete:
  assumes azure: "env (str ''OPENAI_API_TYPE'') = Some (str ''azure'')"
      and absent: "env (str ''OPENAI_API_BASE'') = None \<or> env (str ''OPENAI_API_VERSION'') = None
                   \<or> env (str ''OPENAI_DEPLOYMENT_NAME'') = None"
  shows "init_agent env = Inl (Exn RuntimeError (str ''Missing Azure OpenAI configuration in .env''))
       \<and> ideaAgentNode env create state w
           = (Inl (Exn RuntimeError (str ''Missing Azure OpenAI configuration in .env'')), w)"
proof -
  have low: "lower (str ''azure'') = str ''azure''"
    by (simp add: lower_def lower_char_def str_def)
  have "\<not> (truthy (env (str ''OPENAI_API_BASE'')) \<and> truthy (env (str ''OPENAI_API_VERSION''))
           \<and> truthy (env (str ''OPENAI_DEPLOYMENT_NAME'')))"
    using absent by (auto simp: truthy_def)
  then have "init_agent env
             = Inl (Exn RuntimeError (str ''Missing Azure OpenAI configuration in .env''))"
    using azure low by (simp add: init_agent_def getenv_def Let_def)
  then show ?thesis by (simp add: ideaAgentNode_def)
qed

theorem init_agent_azure_incomplete_witness:
  "azure_env_without_deployment (str ''OPENAI_API_TYPE'') = Some (str ''azure'')
   \<and> azure_env_without_deployment (str ''OPENAI_API_BASE'') \<noteq> None
   \<and> azure_env_without_deployment (str ''OPENAI_API_VERSION'') \<noteq> None
   \<and> azure_env_without_deployment (str ''OPENAI_DEPLOYMENT_NAME'') = None
   \<and> init_agent azure_env_without_deployment
        = Inl (Exn RuntimeError (str ''Missing Azure OpenAI configuration in .env''))
   \<and> ideaAgentNode azure_env_without_deployment completions_down Map.empty world0
        = (Inl (Exn RuntimeError (str ''Missing Azure OpenAI configuration in .env'')), world0)"
proof -
  have a: "azure_env_without_deployment (str ''OPENAI_API_TYPE'') = Some (str ''azure'')"
    by (simp add: azure_env_without_deployment_def)
  have d: "azure_env_without_deployment (str ''OPENAI_DEPLOYMENT_NAME'') = None"
    by (simp add: azure_env_without_deployment_def)
  from init_agent_azure_incomplete
         [of azure_env_without_deployment completions_down Map.empty world0] a d
  show ?thesis
    by (simp add: azure_env_without_deployment_def)
qed

section \<open>The Persistence Adapter\<close>

text \<open>
  Claim C10. For every \<open>story_data\<close>, the page that \<open>create_story_page\<close> submits has
  its \<open>Status\<close> property set to the select value \<open>"Generated"\<close>.
\<close>

theorem create_story_page_status_generated:
  "\<exists>properties children.
      notion_calls (snd (create_story_page self pages story_data w))
        = notion_calls w @ [Pages_create (database_id self) properties children]
    \<and> properties (str ''Status'') = Some (Select (str ''Generated''))"
  using create_story_page_calls create_properties_Status by blast

text \<open>
  Claim C9, as stated, at a \<open>story_data\<close> without the key \<open>prompt\<close>: the \<open>Title\<close> is the
  literal \<open>"Untitled Story"\<close>, which is not taken from any prompt.
\<close>

theorem create_story_page_title_without_prompt:
  "notion_calls (snd (create_story_page manager0 pages_ok Map.empty world0))
     = [Pages_create (str ''db'')
          [str ''Title'' \<mapsto> Title [str ''Untitled Story''],
           str ''Status'' \<mapsto> Select (str ''Generated'')]
          [Heading_1 [str ''Generated Ideas''], Heading_1 [str ''Complete Story''],
           Paragraph [[]]]]"
  by (simp add: create_story_page_def create_properties_def create_children_def Let_def
      manager0_def pages_ok_def world0_def slice_to_def truncate_text_def default_max_length_def)

text \<open>
  Claim C9, amended. For every \<open>story_data\<close>, the \<open>Title\<close> that \<open>create_story_page\<close>
  submits is the first 100 characters of \<open>story_data["prompt"]\<close> when the key is present
  and \<open>"Untitled Story"\<close> when it is absent; in both cases it has at most 100 characters.
\<close>

theorem create_story_page_title:
  "\<exists>properties children.
      notion_calls (snd (create_story_page self pages story_data w))
        = notion_calls w @ [Pages_create (database_id self) properties children]
    \<and> properties (str ''Title'')
        = Some (Title [case story_data (str ''prompt'') of
                         None \<Rightarrow> str ''Untitled Story'' | Some p \<Rightarrow> take 100 p])
    \<and> length (case story_data (str ''prompt'') of
                 None \<Rightarrow> str ''Untitled Story'' | Some p \<Rightarrow> take 100 p) \<le> 100"
proof -
  have "length (case story_data (str ''prompt'') of
                 None \<Rightarrow> str ''Untitled Story'' | Some p \<Rightarrow> take 100 p) \<le> 100"
    by (simp split: option.splits)
  then show ?thesis
    using create_story_page_calls create_properties_Title by blast
qed

text \<open>
  Claim C3, as stated, at a store that rejects the call: \<open>create_story_page\<close> prints one
  line and raises the store's exception to its caller.
\<close>

theorem create_story_page_raises:
  "create_story_page manager0 pages_down [str ''prompt'' \<mapsto> str ''cat''] world0
     = (Inl (Exn APIResponseError (str ''API token is invalid.'')),
        \<lparr>stdout = [str ''Notion API error: API token is invalid.''],
         completion_calls = [],
         notion_calls = [Pages_create (str ''db'')
           [str ''Title'' \<mapsto> Title [str ''cat''], str ''Status'' \<mapsto> Select (str ''Generated'')]
           [Heading_1 [str ''Generated Ideas''], Heading_1 [str ''Complete Story''],
            Paragraph [[]]]]\<rparr>)"
  by (simp add: create_story_page_def create_properties_def create_children_def Let_def print_def
      manager0_def pages_down_def world0_def slice_to_def truncate_text_def default_max_length_def
      str_def)

text \<open>
  Claim C3, amended. When the call of \<open>pages.create\<close> raises \<open>e\<close>, \<open>create_story_page\<close>
  returns no page data: it prints one line, \<open>"Notion API error: "\<close> for an
  \<open>APIResponseError\<close> and \<open>"Error creating story page: "\<close> otherwise, followed by the
  message of \<open>e\<close>, and raises \<open>e\<close> again to its caller.
\<close>

theorem create_story_page_reraises:
  assumes failed: "pages (Pages_create (database_id self) (create_properties story_data)
                            (create_children story_data)) = Inl e"
  shows "fst (create_story_page self pages story_data w) = Inl e
       \<and> stdout (snd (create_story_page self pages story_data w))
           = stdout w @ [(if exn_kind e = APIResponseError then str ''Notion API error: ''
                           else str ''Error creating story page: '') @ exn_msg e]"
  using failed by (simp add: create_story_page_def Let_def print_def)

theorem create_story_page_reraises_witness:
  "pages_down (Pages_create (database_id manager0)
                 (create_properties [str ''prompt'' \<mapsto> str ''cat''])
                 (create_children [str ''prompt'' \<mapsto> str ''cat'']))
     = Inl (Exn APIResponseError (str ''API token is invalid.''))
   \<and> fst (create_story_page manager0 pages_down [str ''prompt'' \<mapsto> str ''cat''] world0)
     = Inl (Exn APIResponseError (str ''API token is invalid.''))
   \<and> stdout (snd (create_story_page manager0 pages_down [str ''prompt'' \<mapsto> str ''cat''] world0))
     = [str ''Notion API error: API token is invalid.'']"
proof -
  have f: "pages_down (Pages_create (database_id manager0)
                         (create_properties [str ''prompt'' \<mapsto> str ''cat''])
                         (create_children [str ''prompt'' \<mapsto> str ''cat'']))
     = Inl (Exn APIResponseError (str ''API token is invalid.''))"
    by (simp add: pages_down_def)
  from create_story_page_reraises
         [of pages_down manager0 "[str ''prompt'' \<mapsto> str ''cat'']" _ world0] f
  show ?thesis
    by (simp add: world0_def str_def)
qed

text \<open>
  Every text that \<open>create_story_page\<close> submits has at most 1900 characters: the title
  is cut at 100, the fixed texts are short, and every other text goes through
  \<open>_truncate_text\<close>.
\<close>

lemma create_properties_texts_bounded:
  assumes "create_properties story_data k = Some p" and "t \<in> set (property_texts p)"
  shows "length t \<le> 1900"
  using assms length_truncate_text_le
  by (auto simp: create_properties_def Let_def slice_to_def split: option.splits if_splits)

lemma create_children_texts_bounded:
  assumes "b \<in> set (create_children story_data)" and "t \<in> set (block_texts b)"
  shows "length t \<le> 1900"
  using assms length_truncate_text_le
  by (auto simp: create_children_def Let_def split: option.splits if_splits)

lemma create_story_page_texts_bounded:
  assumes "call \<in> set (notion_calls (snd (create_story_page self pages story_data w)))"
      and "call \<notin> set (notion_calls w)"
      and "t \<in> submitted_texts call"
  shows "length t \<le> 1900"
proof -
  from assms(1,2) have "call = Pages_create (database_id self) (create_properties story_data)
                           (create_children story_data)"
    by (simp add: create_story_page_calls)
  with assms(3) show ?thesis
    by (auto simp: ran_def dest: create_properties_texts_bounded create_children_texts_bounded)
qed

text \<open>
  Claim C4, at an update whose \<open>setting\<close> has 2000 characters: \<open>update_story_page\<close>
  submits the 2000 characters as they are, where \<open>create_story_page\<close> would have
  truncated them.
\<close>

theorem update_story_page_untruncated:
  "length (replicate 2000 (97::nat)) = 2000
   \<and> notion_calls (snd (update_story_page manager0 pages_ok (str ''page-1'')
                          [str ''setting'' \<mapsto> replicate 2000 97] world0))
     = [Pages_update (str ''page-1'') [str ''Setting'' \<mapsto> Rich_text [replicate 2000 97]]]
   \<and> replicate 2000 97
       \<in> submitted_texts (Pages_update (str ''page-1'')
                            [str ''Setting'' \<mapsto> Rich_text [replicate 2000 97]])"
  by (simp add: update_story_page_def Let_def manager0_def pages_ok_def world0_def)

end
